theory Spec2Isabelle
  imports Complex_Main
begin

unbundle bit_operations_syntax

section \<open>Floating-point values\<close>

text \<open>
  The arrays of \<^verbatim>\<open>wasserstein_nn.py\<close> hold float64 values.  They are modelled as the
  extended reals with a not-a-number value: finite values are exact reals (rounding and
  overflow are not modelled), and the special values \<^verbatim>\<open>nan\<close>, \<^verbatim>\<open>-inf\<close> and \<^verbatim>\<open>inf\<close>
  follow IEEE 754 in every operation the module uses.
\<close>

datatype f64 = NaN | NInf | Fin real | PInf

fun fneg :: "f64 \<Rightarrow> f64" where
  "fneg NaN = NaN"
| "fneg NInf = PInf"
| "fneg (Fin x) = Fin (- x)"
| "fneg PInf = NInf"

fun fadd :: "f64 \<Rightarrow> f64 \<Rightarrow> f64" where
  "fadd NaN b = NaN"
| "fadd a NaN = NaN"
| "fadd PInf NInf = NaN"
| "fadd NInf PInf = NaN"
| "fadd PInf b = PInf"
| "fadd a PInf = PInf"
| "fadd NInf b = NInf"
| "fadd a NInf = NInf"
| "fadd (Fin x) (Fin y) = Fin (x + y)"

definition fsub :: "f64 \<Rightarrow> f64 \<Rightarrow> f64" where
  "fsub a b = fadd a (fneg b)"

text \<open>\<^verbatim>\<open>x ** 2\<close>\<close>

fun fsquare :: "f64 \<Rightarrow> f64" where
  "fsquare NaN = NaN"
| "fsquare NInf = PInf"
| "fsquare (Fin x) = Fin (x * x)"
| "fsquare PInf = PInf"

text \<open>\<^verbatim>\<open>tot / cnt\<close> for a float total and an integer count (numpy's true division).\<close>

fun fdiv_count :: "f64 \<Rightarrow> nat \<Rightarrow> f64" where
  "fdiv_count NaN c = NaN"
| "fdiv_count NInf c = NInf"
| "fdiv_count PInf c = PInf"
| "fdiv_count (Fin x) c =
     (if c = 0 then (if x = 0 then NaN else if 0 < x then PInf else NInf)
      else Fin (x / real c))"

text \<open>\<^verbatim>\<open>a <= b\<close> and \<^verbatim>\<open>a < b\<close>: every comparison with \<^verbatim>\<open>nan\<close> is false.\<close>

fun fle :: "f64 \<Rightarrow> f64 \<Rightarrow> bool" where
  "fle NaN b = False"
| "fle a NaN = False"
| "fle NInf b = True"
| "fle a PInf = True"
| "fle PInf b = False"
| "fle a NInf = False"
| "fle (Fin x) (Fin y) = (x \<le> y)"

fun flt :: "f64 \<Rightarrow> f64 \<Rightarrow> bool" where
  "flt NaN b = False"
| "flt a NaN = False"
| "flt PInf b = False"
| "flt a NInf = False"
| "flt NInf b = True"
| "flt a PInf = True"
| "flt (Fin x) (Fin y) = (x < y)"

text \<open>\<^verbatim>\<open>np.clip(x, a_min=0, a_max=None)\<close>, that is \<^verbatim>\<open>np.maximum(x, 0)\<close>: \<^verbatim>\<open>nan\<close> stays.\<close>

fun clip_min0 :: "f64 \<Rightarrow> f64" where
  "clip_min0 NaN = NaN"
| "clip_min0 NInf = Fin 0"
| "clip_min0 (Fin x) = Fin (max x 0)"
| "clip_min0 PInf = PInf"

definition is_finite :: "f64 \<Rightarrow> bool" where
  "is_finite a = (case a of Fin x \<Rightarrow> True | _ \<Rightarrow> False)"

text \<open>\<^verbatim>\<open>np.sum\<close> of a one-dimensional array; the sum of no element is \<^verbatim>\<open>0.0\<close>.\<close>

definition fsum :: "f64 list \<Rightarrow> f64" where
  "fsum xs = foldr fadd xs (Fin 0)"

text \<open>
  \<^verbatim>\<open>np.nanmean\<close> along one axis, as numpy computes it: the \<^verbatim>\<open>nan\<close> entries are replaced
  by zero and summed with the rest, and the total is divided by the number of entries
  that were not \<^verbatim>\<open>nan\<close>.  A slice with no such entry gives \<^verbatim>\<open>0.0 / 0\<close>, which is \<^verbatim>\<open>nan\<close>
  (numpy warns and does not raise).
\<close>

definition replace_nan :: "f64 list \<Rightarrow> f64 list" where
  "replace_nan xs = map (\<lambda>x. if x = NaN then Fin 0 else x) xs"

definition nanmean :: "f64 list \<Rightarrow> f64" where
  "nanmean xs = fdiv_count (fsum (replace_nan xs)) (length (filter (\<lambda>x. x \<noteq> NaN) xs))"

section \<open>Elementary distance primitives\<close>

text \<open>
  An \<^verbatim>\<open>n x 1\<close> sample vector is a list of \<open>n\<close> values.  The elementwise operations of
  the source act on arrays of equal shape; the model pairs the entries with \<open>map2\<close>.
\<close>

definition sq_diff :: "f64 list \<Rightarrow> f64 list \<Rightarrow> f64 list" where
  "sq_diff Y_i Y_j = map fsquare (map2 fsub Y_i Y_j)"

definition wasserstein2_dist :: "f64 list \<Rightarrow> f64 list \<Rightarrow> f64" where
  "wasserstein2_dist Y_i Y_j = nanmean (sq_diff Y_i Y_j)"

definition avg_wasserstein2_dist :: "f64 list list \<Rightarrow> f64 list list \<Rightarrow> f64" where
  "avg_wasserstein2_dist Y_i Y_j = nanmean (map nanmean (map2 sq_diff Y_i Y_j))"

section \<open>Error aggregation\<close>

text \<open>
  \<^verbatim>\<open>avg_error(self, ests, truth, inds=None)\<close>: the third argument is an optional value
  of any type, \<open>None\<close> by default.
\<close>

definition avg_error :: "f64 list list \<Rightarrow> f64 list list \<Rightarrow> 'i option \<Rightarrow> f64" where
  "avg_error ests truth inds = nanmean (map nanmean (map2 sq_diff ests truth))"

section \<open>Arrays\<close>

text \<open>
  The measurement tensor \<open>Z\<close> has shape \<open>(N, T, n, d)\<close>; the estimator is defined for
  \<open>d = 1\<close> only, and the model drops that last axis: \<open>cells Z ! i ! j\<close> is the sample
  vector of cell \<open>(i, j)\<close>, a list of \<open>shape_n Z\<close> values.  The shape is part of the
  value, as it is in numpy, so that an axis of length zero keeps the other lengths.
  The mask \<open>M\<close> is an integer matrix of shape \<open>(N, T)\<close> and a distance matrix is a list
  of rows.
\<close>

record tensor =
  shape_N :: nat
  shape_T :: nat
  shape_n :: nat
  cells :: "f64 list list list"

definition wf_tensor :: "tensor \<Rightarrow> bool" where
  "wf_tensor Z =
     (length (cells Z) = shape_N Z \<and>
      (\<forall>r \<in> set (cells Z). length r = shape_T Z \<and> (\<forall>c \<in> set r. length c = shape_n Z)))"

definition wf_mask :: "tensor \<Rightarrow> int list list \<Rightarrow> bool" where
  "wf_mask Z M = (length M = shape_N Z \<and> (\<forall>r \<in> set M. length r = shape_T Z))"

text \<open>
  \<^verbatim>\<open>Z_cp = Z.copy(); Z_cp[mask] = np.nan\<close> for a boolean \<open>(N, T)\<close> mask computed from
  \<open>M\<close> entry by entry: every sample of a selected cell becomes \<^verbatim>\<open>nan\<close>.
\<close>

definition set_nan_where :: "(int \<Rightarrow> bool) \<Rightarrow> tensor \<Rightarrow> int list list \<Rightarrow> tensor" where
  "set_nan_where sel Z M =
     Z\<lparr>cells :=
         map (\<lambda>i. map (\<lambda>j. if sel (M ! i ! j) then replicate (shape_n Z) NaN
                             else cells Z ! i ! j)
                    [0..<shape_T Z])
             [0..<shape_N Z]\<rparr>"

text \<open>\<^verbatim>\<open>Z.swapaxes(0, 1)\<close> and \<^verbatim>\<open>M.T\<close> (for \<open>M\<close> of shape \<open>(N, T)\<close>).\<close>

definition swapaxes :: "tensor \<Rightarrow> tensor" where
  "swapaxes Z =
     \<lparr>shape_N = shape_T Z, shape_T = shape_N Z, shape_n = shape_n Z,
      cells = map (\<lambda>j. map (\<lambda>i. cells Z ! i ! j) [0..<shape_N Z]) [0..<shape_T Z]\<rparr>"

definition mask_transpose :: "nat \<Rightarrow> nat \<Rightarrow> int list list \<Rightarrow> int list list" where
  "mask_transpose N T M = map (\<lambda>j. map (\<lambda>i. M ! i ! j) [0..<N]) [0..<T]"

text \<open>
  \<^verbatim>\<open>(A[:, None, :, :] - A) ** 2\<close> for \<open>A\<close> of shape \<open>(a, b, n)\<close>: broadcasting gives the
  array of shape \<open>(a, a, b, n)\<close> whose entry \<open>[p, q, r, k]\<close> is
  \<open>(A[p, r, k] - A[q, r, k]) ** 2\<close>.
\<close>

definition pairwise_sq_diff :: "tensor \<Rightarrow> f64 list list list list" where
  "pairwise_sq_diff A =
     map (\<lambda>p. map (\<lambda>q. map (\<lambda>r. sq_diff (cells A ! p ! r) (cells A ! q ! r))
                             [0..<shape_T A])
                    [0..<shape_N A])
         [0..<shape_N A]"

text \<open>\<^verbatim>\<open>np.full([K, K], v)\<close>, \<^verbatim>\<open>D + D.T\<close> for a square \<open>D\<close>, and \<^verbatim>\<open>np.fill_diagonal(D, v)\<close>.\<close>

definition full :: "nat \<Rightarrow> nat \<Rightarrow> 'a \<Rightarrow> 'a list list" where
  "full r c v = replicate r (replicate c v)"

definition add_transpose :: "f64 list list \<Rightarrow> f64 list list" where
  "add_transpose D =
     map (\<lambda>a. map (\<lambda>b. fadd (D ! a ! b) (D ! b ! a)) [0..<length D]) [0..<length D]"

definition fill_diagonal :: "'a list list \<Rightarrow> 'a \<Rightarrow> 'a list list" where
  "fill_diagonal D v = map (\<lambda>a. (D ! a)[a := v]) [0..<length D]"

section \<open>Pairwise distance computation\<close>

text \<open>
  Lines 152 to 162 of \<^verbatim>\<open>distances\<close>: the matrix of pairwise averages, before it is
  symmetrized.  The first \<^verbatim>\<open>np.nanmean(..., axis=-1)\<close> averages over the samples, the
  second over the orthogonal axis (the rows in mode \<^verbatim>\<open>"ii"\<close>, the columns in mode
  \<^verbatim>\<open>"uu"\<close>).  A mode that is neither \<^verbatim>\<open>"ii"\<close> nor \<^verbatim>\<open>"uu"\<close> leaves the zero matrix
  built before the branches.
\<close>

definition raw_diffs :: "string \<Rightarrow> tensor \<Rightarrow> f64 list list" where
  "raw_diffs nn_type Z_cp =
     (let diffs = (if nn_type = ''ii'' then full (shape_T Z_cp) (shape_T Z_cp) (Fin 0)
                   else full (shape_N Z_cp) (shape_N Z_cp) (Fin 0))
      in if nn_type = ''ii''
         then (let diffs = map (map (map nanmean)) (pairwise_sq_diff (swapaxes Z_cp))
               in map (map nanmean) diffs)
         else if nn_type = ''uu''
         then (let diffs = map (map (map nanmean)) (pairwise_sq_diff Z_cp)
               in map (map nanmean) diffs)
         else diffs)"

text \<open>\<^verbatim>\<open>distances(self, Z, M)\<close>, with \<^verbatim>\<open>self.nn_type\<close> as the first argument.\<close>

definition distances :: "string \<Rightarrow> tensor \<Rightarrow> int list list \<Rightarrow> f64 list list" where
  "distances nn_type Z M =
     (let Z_cp = set_nan_where (\<lambda>m. m \<noteq> 1) Z M;
          diffs = raw_diffs nn_type Z_cp;
          diffs = add_transpose diffs;
          diffs = map (map clip_min0) diffs
      in fill_diagonal diffs PInf)"

section \<open>Neighborhood estimation\<close>

datatype py_error = TypeError | IndexError

text \<open>
  An integer index into an axis of length \<open>len\<close>: a negative index counts from the
  end, and an index outside \<open>[-len, len)\<close> raises \<^verbatim>\<open>IndexError\<close>.
\<close>

definition norm_index :: "nat \<Rightarrow> int \<Rightarrow> nat option" where
  "norm_index len i =
     (if 0 \<le> i \<and> i < int len then Some (nat i)
      else if - int len \<le> i \<and> i < 0 then Some (nat (int len + i))
      else None)"

text \<open>
  The accumulators \<^verbatim>\<open>ests\<close> and \<^verbatim>\<open>list_neighbors\<close> are Python lists of lists
  (\<^verbatim>\<open>[[None] * T] * N\<close>), not arrays.  A Python list takes an integer subscript; a
  tuple subscript raises \<^verbatim>\<open>TypeError\<close>.
\<close>

datatype pyval = PNone | PArray "f64 list" | PIndices "nat list" | PList "pyval list"

datatype py_key = KInt int | KTuple int int

fun list_setitem :: "pyval list \<Rightarrow> py_key \<Rightarrow> pyval \<Rightarrow> py_error + pyval list" where
  "list_setitem xs (KTuple i j) v = Inl TypeError"
| "list_setitem xs (KInt i) v =
     (case norm_index (length xs) i of
        None \<Rightarrow> Inl IndexError
      | Some k \<Rightarrow> Inr (xs[k := v]))"

text \<open>\<^verbatim>\<open>A[i, j] = v\<close> for a two-dimensional numpy array \<open>A\<close> of shape \<open>(N, T)\<close>.\<close>

definition ndarray_setitem ::
  "nat \<Rightarrow> nat \<Rightarrow> f64 list list \<Rightarrow> int \<Rightarrow> int \<Rightarrow> f64 \<Rightarrow> py_error + f64 list list" where
  "ndarray_setitem N T A i j v =
     (case norm_index N i of
        None \<Rightarrow> Inl IndexError
      | Some i' \<Rightarrow>
          (case norm_index T j of
             None \<Rightarrow> Inl IndexError
           | Some j' \<Rightarrow> Inr (A[i' := (A ! i')[j' := v]])))"

text \<open>\<^verbatim>\<open>neighborhoods = dists <= eta\<close>\<close>

definition neighborhoods :: "f64 list list \<Rightarrow> f64 \<Rightarrow> bool list list" where
  "neighborhoods dists eta = map (map (\<lambda>d. fle d eta)) dists"

text \<open>
  \<^verbatim>\<open>Z[i, t_nn]\<close> and \<^verbatim>\<open>Z[t_nn, j]\<close> for a boolean vector \<open>t_nn\<close>: the cells of row \<open>i\<close>
  (of column \<open>j\<close>) at the positions where \<open>t_nn\<close> holds.  The integer index must be in
  range and \<open>t_nn\<close> must be as long as the axis it selects from, or numpy raises
  \<^verbatim>\<open>IndexError\<close>.
\<close>

definition gather_row :: "tensor \<Rightarrow> int \<Rightarrow> bool list \<Rightarrow> py_error + f64 list list" where
  "gather_row Z i t_nn =
     (case norm_index (shape_N Z) i of
        None \<Rightarrow> Inl IndexError
      | Some i' \<Rightarrow>
          if length t_nn \<noteq> shape_T Z then Inl IndexError
          else Inr (map (\<lambda>t. cells Z ! i' ! t) (filter (\<lambda>t. t_nn ! t) [0..<shape_T Z])))"

definition gather_col :: "tensor \<Rightarrow> bool list \<Rightarrow> int \<Rightarrow> py_error + f64 list list" where
  "gather_col Z t_nn j =
     (case norm_index (shape_T Z) j of
        None \<Rightarrow> Inl IndexError
      | Some j' \<Rightarrow>
          if length t_nn \<noteq> shape_N Z then Inl IndexError
          else Inr (map (\<lambda>s. cells Z ! s ! j') (filter (\<lambda>s. t_nn ! s) [0..<shape_N Z])))"

text \<open>\<^verbatim>\<open>M[i, :]\<close> and \<^verbatim>\<open>M[:, j]\<close> for \<open>M\<close> of shape \<open>(N, T)\<close>.\<close>

definition mask_row :: "nat \<Rightarrow> nat \<Rightarrow> int list list \<Rightarrow> int \<Rightarrow> py_error + int list" where
  "mask_row N T M i =
     (case norm_index N i of
        None \<Rightarrow> Inl IndexError
      | Some i' \<Rightarrow> Inr (map (\<lambda>t. M ! i' ! t) [0..<T]))"

definition mask_col :: "nat \<Rightarrow> nat \<Rightarrow> int list list \<Rightarrow> int \<Rightarrow> py_error + int list" where
  "mask_col N T M j =
     (case norm_index T j of
        None \<Rightarrow> Inl IndexError
      | Some j' \<Rightarrow> Inr (map (\<lambda>s. M ! s ! j') [0..<N]))"

text \<open>\<^verbatim>\<open>neighborhoods[k]\<close>: row \<open>k\<close> of the boolean matrix.\<close>

definition bool_row :: "bool list list \<Rightarrow> int \<Rightarrow> py_error + bool list" where
  "bool_row B k =
     (case norm_index (length B) k of
        None \<Rightarrow> Inl IndexError
      | Some k' \<Rightarrow> Inr (B ! k'))"

text \<open>
  \<^verbatim>\<open>np.nanmean(neighbors, axis=0).flatten()\<close> for \<open>neighbors\<close> of shape \<open>(k, n, 1)\<close>:
  the mean over the gathered cells, one value per sample position.
\<close>

definition nanmean_axis0 :: "nat \<Rightarrow> f64 list list \<Rightarrow> f64 list" where
  "nanmean_axis0 n neighbors = map (\<lambda>k. nanmean (map (\<lambda>c. c ! k) neighbors)) [0..<n]"

text \<open>
  \<^verbatim>\<open>np.nonzero(t_nn & msk_inp_full)\<close>: the boolean entries are read as 0 and 1 for the
  bitwise and with the integer mask entries, and \<^verbatim>\<open>nonzero\<close> lists the positions where
  the result is not zero.
\<close>

definition nonzero_and :: "bool list \<Rightarrow> int list \<Rightarrow> nat list" where
  "nonzero_and t_nn msk =
     filter (\<lambda>t. (of_bool (t_nn ! t) AND msk ! t) \<noteq> 0) [0..<length t_nn]"

text \<open>
  The body of the loop for one requested index \<open>(i, j)\<close>, up to the three values
  \<^verbatim>\<open>est\<close>, \<^verbatim>\<open>nn_count_rc\<close> and \<^verbatim>\<open>list_neighbors_rc\<close> (lines 112 to 123).  The cells are
  gathered from \<open>Z\<close> itself.
\<close>

definition estimate_rc ::
  "string \<Rightarrow> tensor \<Rightarrow> int list list \<Rightarrow> bool list list \<Rightarrow> int \<Rightarrow> int
     \<Rightarrow> py_error + (f64 list \<times> nat \<times> nat list option)" where
  "estimate_rc nn_type Z M nbhs i j =
     (case (if nn_type = ''ii'' then bool_row nbhs j else bool_row nbhs i) of
        Inl e \<Rightarrow> Inl e
      | Inr t_nn \<Rightarrow>
     (case (if nn_type = ''ii'' then mask_row (shape_N Z) (shape_T Z) M i
            else mask_col (shape_N Z) (shape_T Z) M j) of
        Inl e \<Rightarrow> Inl e
      | Inr msk_inp_full \<Rightarrow>
     (case (if nn_type = ''ii'' then gather_row Z i t_nn else gather_col Z t_nn j) of
        Inl e \<Rightarrow> Inl e
      | Inr neighbors \<Rightarrow>
          if length neighbors * shape_n Z > 0
          then Inr (nanmean_axis0 (shape_n Z) neighbors, length neighbors,
                    Some (nonzero_and t_nn msk_inp_full))
          else Inr (replicate (shape_n Z) NInf, 0, None))))"

text \<open>
  The loop over \<^verbatim>\<open>inds\<close>.  The state holds \<^verbatim>\<open>ests\<close>, \<^verbatim>\<open>nn_count\<close> and
  \<^verbatim>\<open>list_neighbors\<close>; \<^verbatim>\<open>ests[i, j] = est\<close> and \<^verbatim>\<open>list_neighbors[i, j] = ...\<close> subscript
  a Python list with a tuple, \<^verbatim>\<open>nn_count[i, j] = ...\<close> stores into a numpy array.
\<close>

fun estimate_loop ::
  "string \<Rightarrow> tensor \<Rightarrow> int list list \<Rightarrow> bool list list \<Rightarrow> (int \<times> int) list
     \<Rightarrow> pyval list \<times> f64 list list \<times> pyval list
     \<Rightarrow> py_error + (pyval list \<times> f64 list list \<times> pyval list)" where
  "estimate_loop nn_type Z M nbhs [] st = Inr st"
| "estimate_loop nn_type Z M nbhs ((i, j) # inds) (ests, nn_count, list_neighbors) =
     (case estimate_rc nn_type Z M nbhs i j of
        Inl e \<Rightarrow> Inl e
      | Inr (est, nn_count_rc, list_neighbors_rc) \<Rightarrow>
     (case list_setitem ests (KTuple i j) (PArray est) of
        Inl e \<Rightarrow> Inl e
      | Inr ests' \<Rightarrow>
     (case ndarray_setitem (shape_N Z) (shape_T Z) nn_count i j (Fin (real nn_count_rc)) of
        Inl e \<Rightarrow> Inl e
      | Inr nn_count' \<Rightarrow>
     (case list_setitem list_neighbors (KTuple i j)
             (case list_neighbors_rc of None \<Rightarrow> PNone | Some l \<Rightarrow> PIndices l) of
        Inl e \<Rightarrow> Inl e
      | Inr list_neighbors' \<Rightarrow>
          estimate_loop nn_type Z M nbhs inds (ests', nn_count', list_neighbors')))))"

datatype est_result =
  Ests "pyval list"
| EstsNN "pyval list" "f64 list list" "pyval list"

text \<open>
  \<^verbatim>\<open>estimate(self, Z, M, eta, inds, dists, ret_nn=False)\<close>.  \<^verbatim>\<open>Z_cp\<close> is built and not
  read afterwards.
\<close>

definition estimate ::
  "string \<Rightarrow> tensor \<Rightarrow> int list list \<Rightarrow> f64 \<Rightarrow> (int \<times> int) list \<Rightarrow> f64 list list \<Rightarrow> bool
     \<Rightarrow> py_error + est_result" where
  "estimate nn_type Z M eta inds dists ret_nn =
     (let Z_cp = set_nan_where (\<lambda>m. m = 2) (set_nan_where (\<lambda>m. m = 0) Z M) M;
          nn_count = full (shape_N Z) (shape_T Z) NaN;
          list_neighbors = replicate (shape_N Z) (PList (replicate (shape_T Z) PNone));
          ests = replicate (shape_N Z) (PList (replicate (shape_T Z) PNone));
          nbhs = neighborhoods dists eta
      in case estimate_loop nn_type Z M nbhs inds (ests, nn_count, list_neighbors) of
           Inl e \<Rightarrow> Inl e
         | Inr (ests', nn_count', list_neighbors') \<Rightarrow>
             Inr (if ret_nn then EstsNN ests' nn_count' list_neighbors' else Ests ests'))"

section \<open>Well-formed arguments\<close>

text \<open>
  \<^verbatim>\<open>inds\<close> holds indices into \<open>Z\<close>, and \<^verbatim>\<open>dists\<close> is the square distance matrix of the
  neighbor axis: \<open>T\<close> by \<open>T\<close> in mode \<^verbatim>\<open>"ii"\<close>, \<open>N\<close> by \<open>N\<close> otherwise.
\<close>

definition index_in_range :: "tensor \<Rightarrow> int \<times> int \<Rightarrow> bool" where
  "index_in_range Z ij =
     (norm_index (shape_N Z) (fst ij) \<noteq> None \<and> norm_index (shape_T Z) (snd ij) \<noteq> None)"

definition neighbor_axis_len :: "string \<Rightarrow> tensor \<Rightarrow> nat" where
  "neighbor_axis_len nn_type Z = (if nn_type = ''ii'' then shape_T Z else shape_N Z)"

definition dists_shape_ok :: "string \<Rightarrow> tensor \<Rightarrow> f64 list list \<Rightarrow> bool" where
  "dists_shape_ok nn_type Z dists =
     (length dists = neighbor_axis_len nn_type Z \<and>
      list_all (\<lambda>r. length r = neighbor_axis_len nn_type Z) dists)"

text \<open>The position of the requested index \<open>(i, j)\<close> on the neighbor axis.\<close>

definition target :: "string \<Rightarrow> nat \<Rightarrow> nat \<Rightarrow> nat" where
  "target nn_type i j = (if nn_type = ''ii'' then j else i)"

text \<open>The mask entries along the orthogonal axis of the requested index are all 1.\<close>

definition all_observed :: "string \<Rightarrow> tensor \<Rightarrow> int list list \<Rightarrow> nat \<Rightarrow> nat \<Rightarrow> bool" where
  "all_observed nn_type Z M i j =
     (if nn_type = ''ii'' then list_all (\<lambda>t. M ! i ! t = 1) [0..<shape_T Z]
      else list_all (\<lambda>s. M ! s ! j = 1) [0..<shape_N Z])"

section \<open>Example inputs\<close>

text \<open>A tensor of shape \<open>(2, 2, 3, 1)\<close> and one of shape \<open>(1, 2, 1, 1)\<close>.\<close>

definition Z_223 :: tensor where
  "Z_223 = \<lparr>shape_N = 2, shape_T = 2, shape_n = 3,
            cells = [[[Fin 0, Fin 0, Fin 0], [Fin 1, Fin 2, Fin 2]],
                     [[Fin 0, Fin 0, Fin 0], [Fin 0, Fin 3, Fin 3]]]\<rparr>"

definition Z_121 :: tensor where
  "Z_121 = \<lparr>shape_N = 1, shape_T = 2, shape_n = 1, cells = [[[Fin 1], [Fin 3]]]\<rparr>"

text \<open>
  Two tensors of shape \<open>(2, 2, 1, 1)\<close> that differ in cell \<open>(0, 1)\<close> only, and a mask
  under which that cell is not observed.
\<close>

definition Z_221 :: "real \<Rightarrow> tensor" where
  "Z_221 x = \<lparr>shape_N = 2, shape_T = 2, shape_n = 1,
              cells = [[[Fin 1], [Fin x]], [[Fin 5], [Fin 5]]]\<rparr>"

definition M_221 :: "int list list" where
  "M_221 = [[1, 0], [1, 1]]"

section \<open>Properties of the distance primitives and of the error aggregation\<close>

text \<open>The example inputs are arrays: their entries fill their shapes.\<close>

lemma example_inputs_wf:
  "wf_tensor Z_223 \<and> wf_mask Z_223 [[1, 1], [1, 1]] \<and> wf_mask Z_223 [[1, 1], [0, 1]] \<and>
   wf_tensor Z_121 \<and> wf_mask Z_121 [[1, 1]] \<and>
   wf_tensor (Z_221 x) \<and> wf_mask (Z_221 x) M_221"
  by (simp add: wf_tensor_def wf_mask_def Z_223_def Z_121_def Z_221_def M_221_def)

lemma fadd_commute: "fadd a b = fadd b a"
  by (cases a; cases b) simp_all

lemma fsquare_fsub_sym: "fsquare (fsub a b) = fsquare (fsub b a)"
  by (cases a; cases b) (simp_all add: fsub_def algebra_simps)

lemma sq_diff_sym: "sq_diff Y_i Y_j = sq_diff Y_j Y_i"
  unfolding sq_diff_def
  by (induction Y_i Y_j rule: list_induct2') (simp_all add: fsquare_fsub_sym)

lemma fsum_zeros: "\<forall>x\<in>set xs. x = Fin 0 \<Longrightarrow> fsum xs = Fin 0"
  unfolding fsum_def by (induction xs) auto

lemma sq_diff_self: "sq_diff Y Y = map (\<lambda>y. fsquare (fsub y y)) Y"
  unfolding sq_diff_def by (induction Y) auto

lemma fsquare_fsub_self: "fsquare (fsub y y) = (if is_finite y then Fin 0 else NaN)"
  by (cases y) (simp_all add: fsub_def is_finite_def)

lemma nanmean_zero_or_nan:
  assumes "\<forall>x\<in>set xs. x = Fin 0 \<or> x = NaN" and "Fin 0 \<in> set xs"
  shows "nanmean xs = Fin 0"
proof -
  have "fsum (replace_nan xs) = Fin 0"
    using assms(1) by (intro fsum_zeros) (auto simp: replace_nan_def)
  moreover have "filter (\<lambda>x. x \<noteq> NaN) xs \<noteq> []"
    using assms(2) by (auto simp: filter_empty_conv)
  ultimately show ?thesis by (simp add: nanmean_def)
qed

text \<open>
  Claim C10, as the code has it: \<^verbatim>\<open>wasserstein2_dist\<close> is symmetric in its two
  equal-length arguments, and the distance of a vector to itself is zero when the vector
  has no \<^verbatim>\<open>nan\<close> entry and at least one finite entry.
\<close>

theorem wasserstein2_dist_symmetric_zero:
  "(length Y_i = length Y_j \<longrightarrow> wasserstein2_dist Y_i Y_j = wasserstein2_dist Y_j Y_i) \<and>
   (NaN \<notin> set Y_i \<and> (\<exists>x. Fin x \<in> set Y_i) \<longrightarrow> wasserstein2_dist Y_i Y_i = Fin 0)"
proof (intro conjI impI)
  show "wasserstein2_dist Y_i Y_j = wasserstein2_dist Y_j Y_i"
    by (simp add: wasserstein2_dist_def sq_diff_sym [of Y_i Y_j])
next
  assume a: "NaN \<notin> set Y_i \<and> (\<exists>x. Fin x \<in> set Y_i)"
  then obtain x where x: "Fin x \<in> set Y_i" by blast
  have "Fin 0 \<in> set (sq_diff Y_i Y_i)"
    unfolding sq_diff_self using x by (force simp: fsquare_fsub_self is_finite_def)
  moreover have "\<forall>v\<in>set (sq_diff Y_i Y_i). v = Fin 0 \<or> v = NaN"
    unfolding sq_diff_self by (auto simp: fsquare_fsub_self)
  ultimately show "wasserstein2_dist Y_i Y_i = Fin 0"
    unfolding wasserstein2_dist_def by (rule nanmean_zero_or_nan [rotated])
qed

theorem wasserstein2_dist_symmetric_zero_witness:
  "wasserstein2_dist [Fin 1, Fin 4] [Fin 3, Fin 0] = wasserstein2_dist [Fin 3, Fin 0] [Fin 1, Fin 4] \<and>
   wasserstein2_dist [Fin 1, Fin 4] [Fin 3, Fin 0] = Fin 10 \<and>
   wasserstein2_dist [Fin 1, PInf] [Fin 1, PInf] = Fin 0"
  using wasserstein2_dist_symmetric_zero [of "[Fin 1, Fin 4]" "[Fin 3, Fin 0]"]
    wasserstein2_dist_symmetric_zero [of "[Fin 1, PInf]" "[]"]
  by (simp add: wasserstein2_dist_def sq_diff_def nanmean_def replace_nan_def fsum_def fsub_def)

text \<open>
  Claim C10 as stated fails: a vector whose entries are all infinite has no \<^verbatim>\<open>nan\<close>
  entry, and its distance to itself is \<^verbatim>\<open>nan\<close>, not zero (\<^verbatim>\<open>inf - inf\<close> is \<^verbatim>\<open>nan\<close>).
  The sentinel estimate of \<^verbatim>\<open>estimate\<close> is such a vector.
\<close>

theorem wasserstein2_dist_zero_counterexample:
  "length [NInf, NInf] = length [NInf, NInf] \<and> NaN \<notin> set [NInf, NInf] \<and>
   wasserstein2_dist [NInf, NInf] [NInf, NInf] \<noteq> Fin 0"
  by (simp add: wasserstein2_dist_def sq_diff_def nanmean_def replace_nan_def fsum_def fsub_def)

text \<open>
  Claim C9: the \<^verbatim>\<open>inds\<close> argument of \<^verbatim>\<open>avg_error\<close> has no effect on the result; any
  two values of it, \<open>None\<close> included, give the same error.
\<close>

theorem avg_error_ignores_inds:
  "avg_error ests truth inds1 = avg_error ests truth inds2"
  by (simp add: avg_error_def)

section \<open>Properties of the distance matrix\<close>

lemma clip_min0_nonneg: "is_finite (clip_min0 x) \<Longrightarrow> fle (Fin 0) (clip_min0 x)"
  by (cases x) (simp_all add: is_finite_def)

lemma length_symmetrized:
  "length (fill_diagonal (map (map clip_min0) (add_transpose D)) v) = length D"
  by (simp add: fill_diagonal_def add_transpose_def)

lemma length_symmetrized_row:
  "a < length D \<Longrightarrow>
   length (fill_diagonal (map (map clip_min0) (add_transpose D)) v ! a) = length D"
  by (simp add: fill_diagonal_def add_transpose_def)

lemma symmetrized_nth:
  "a < length D \<Longrightarrow> b < length D \<Longrightarrow>
   fill_diagonal (map (map clip_min0) (add_transpose D)) v ! a ! b =
     (if a = b then v else clip_min0 (fadd (D ! a ! b) (D ! b ! a)))"
  by (simp add: fill_diagonal_def add_transpose_def)

lemma shape_set_nan_where [simp]:
  "shape_N (set_nan_where sel Z M) = shape_N Z"
  "shape_T (set_nan_where sel Z M) = shape_T Z"
  "shape_n (set_nan_where sel Z M) = shape_n Z"
  by (simp_all add: set_nan_where_def)

lemma length_raw_diffs: "length (raw_diffs nn_type A) = neighbor_axis_len nn_type A"
  by (simp add: raw_diffs_def neighbor_axis_len_def full_def pairwise_sq_diff_def
      swapaxes_def Let_def)

lemma distances_eq:
  "distances nn_type Z M =
     fill_diagonal (map (map clip_min0)
       (add_transpose (raw_diffs nn_type (set_nan_where (\<lambda>m. m \<noteq> 1) Z M)))) PInf"
  by (simp add: distances_def Let_def)

lemma length_distances: "length (distances nn_type Z M) = neighbor_axis_len nn_type Z"
  by (simp add: distances_eq length_symmetrized length_raw_diffs neighbor_axis_len_def)

text \<open>
  Claim C5: for every \<open>Z\<close> and \<open>M\<close> and every mode, the matrix returned by
  \<^verbatim>\<open>distances\<close> is square over the neighbor axis and symmetric, every diagonal entry is
  positive infinity, and every finite off-diagonal entry is at least zero.
\<close>

theorem distances_symmetric_diag_nonneg:
  "length (distances nn_type Z M) = neighbor_axis_len nn_type Z \<and>
   (\<forall>a < neighbor_axis_len nn_type Z.
       length (distances nn_type Z M ! a) = neighbor_axis_len nn_type Z) \<and>
   (\<forall>a < neighbor_axis_len nn_type Z. \<forall>b < neighbor_axis_len nn_type Z.
       distances nn_type Z M ! a ! b = distances nn_type Z M ! b ! a) \<and>
   (\<forall>a < neighbor_axis_len nn_type Z. distances nn_type Z M ! a ! a = PInf) \<and>
   (\<forall>a < neighbor_axis_len nn_type Z. \<forall>b < neighbor_axis_len nn_type Z.
       a \<noteq> b \<and> is_finite (distances nn_type Z M ! a ! b) \<longrightarrow>
       fle (Fin 0) (distances nn_type Z M ! a ! b))"
proof -
  define R where "R = raw_diffs nn_type (set_nan_where (\<lambda>m. m \<noteq> 1) Z M)"
  have D: "distances nn_type Z M = fill_diagonal (map (map clip_min0) (add_transpose R)) PInf"
    by (simp add: R_def distances_eq)
  have K: "length R = neighbor_axis_len nn_type Z"
    by (simp add: R_def length_raw_diffs neighbor_axis_len_def)
  show ?thesis
    unfolding D K [symmetric]
    by (auto simp: length_symmetrized length_symmetrized_row symmetrized_nth fadd_commute
        clip_min0_nonneg)
qed

theorem distances_symmetric_diag_nonneg_witness:
  "distances ''ii'' Z_223 [[1, 1], [1, 1]] ! 0 ! 1 = distances ''ii'' Z_223 [[1, 1], [1, 1]] ! 1 ! 0 \<and>
   distances ''ii'' Z_223 [[1, 1], [1, 1]] ! 0 ! 0 = PInf \<and>
   distances ''ii'' Z_223 [[1, 1], [1, 1]] ! 1 ! 1 = PInf \<and>
   is_finite (distances ''ii'' Z_223 [[1, 1], [1, 1]] ! 0 ! 1) \<and>
   fle (Fin 0) (distances ''ii'' Z_223 [[1, 1], [1, 1]] ! 0 ! 1)"
proof -
  have K: "neighbor_axis_len ''ii'' Z_223 = 2"
    by (simp add: neighbor_axis_len_def Z_223_def)
  have v: "distances ''ii'' Z_223 [[1, 1], [1, 1]] ! 0 ! 1 = Fin 9"
    by code_simp
  have fin: "is_finite (distances ''ii'' Z_223 [[1, 1], [1, 1]] ! 0 ! 1)"
    by (simp only: v is_finite_def f64.case)
  have lt: "(0::nat) < 2" "(1::nat) < 2" "(0::nat) \<noteq> 1"
    by simp_all
  show ?thesis
    using distances_symmetric_diag_nonneg [of "''ii''" Z_223 "[[1, 1], [1, 1]]"] fin lt
    unfolding K by blast
qed

lemma swapaxes_set_nan_where:
  "swapaxes (set_nan_where sel (swapaxes Z) (mask_transpose (shape_N Z) (shape_T Z) M)) =
   set_nan_where sel Z M"
  by (cases Z) (simp add: swapaxes_def set_nan_where_def mask_transpose_def)

lemma raw_diffs_ii: "raw_diffs ''ii'' A =
   map (map nanmean) (map (map (map nanmean)) (pairwise_sq_diff (swapaxes A)))"
  by (simp add: raw_diffs_def Let_def)

lemma raw_diffs_uu: "raw_diffs ''uu'' A =
   map (map nanmean) (map (map (map nanmean)) (pairwise_sq_diff A))"
  by (simp add: raw_diffs_def Let_def)

lemma raw_diffs_uu_nth:
  "i < shape_N A \<Longrightarrow> i' < shape_N A \<Longrightarrow>
   raw_diffs ''uu'' A ! i ! i' =
     nanmean (map (\<lambda>t. nanmean (sq_diff (cells A ! i ! t) (cells A ! i' ! t))) [0..<shape_T A])"
  by (simp add: raw_diffs_uu pairwise_sq_diff_def comp_def)

text \<open>
  Claim C8: mode \<^verbatim>\<open>"uu"\<close> of \<^verbatim>\<open>distances\<close> is mode \<^verbatim>\<open>"ii"\<close> on the transposed input:
  for every \<open>Z\<close> and \<open>M\<close> the result in mode \<^verbatim>\<open>"uu"\<close> equals the result in mode
  \<^verbatim>\<open>"ii"\<close> on the tensor with its first two axes swapped and on \<open>M\<close> transposed.  The
  pairwise average that mode \<^verbatim>\<open>"uu"\<close> computes for two rows \<open>i\<close> and \<open>i'\<close> is the mean
  over the columns of the mean over the samples of the squared differences of the
  masked cells.
\<close>

theorem distances_uu_is_ii_transposed:
  "distances ''uu'' Z M =
     distances ''ii'' (swapaxes Z) (mask_transpose (shape_N Z) (shape_T Z) M) \<and>
   (\<forall>i < shape_N Z. \<forall>i' < shape_N Z.
      raw_diffs ''uu'' (set_nan_where (\<lambda>m. m \<noteq> 1) Z M) ! i ! i' =
        nanmean (map (\<lambda>t. nanmean (sq_diff (cells (set_nan_where (\<lambda>m. m \<noteq> 1) Z M) ! i ! t)
                                             (cells (set_nan_where (\<lambda>m. m \<noteq> 1) Z M) ! i' ! t)))
                     [0..<shape_T Z]))"
proof (intro conjI allI impI)
  show "distances ''uu'' Z M =
     distances ''ii'' (swapaxes Z) (mask_transpose (shape_N Z) (shape_T Z) M)"
    by (simp add: distances_def Let_def raw_diffs_ii raw_diffs_uu swapaxes_set_nan_where)
next
  fix i i'
  assume "i < shape_N Z" "i' < shape_N Z"
  then show "raw_diffs ''uu'' (set_nan_where (\<lambda>m. m \<noteq> 1) Z M) ! i ! i' =
        nanmean (map (\<lambda>t. nanmean (sq_diff (cells (set_nan_where (\<lambda>m. m \<noteq> 1) Z M) ! i ! t)
                                             (cells (set_nan_where (\<lambda>m. m \<noteq> 1) Z M) ! i' ! t)))
                     [0..<shape_T Z])"
    using raw_diffs_uu_nth [of i "set_nan_where (\<lambda>m. m \<noteq> 1) Z M" i'] by simp
qed

theorem distances_uu_is_ii_transposed_witness:
  "distances ''uu'' Z_223 [[1, 1], [0, 1]] = [[PInf, Fin 2], [Fin 2, PInf]] \<and>
   distances ''ii'' (swapaxes Z_223) (mask_transpose (shape_N Z_223) (shape_T Z_223) [[1, 1], [0, 1]])
     = [[PInf, Fin 2], [Fin 2, PInf]] \<and>
   raw_diffs ''uu'' (set_nan_where (\<lambda>m. m \<noteq> 1) Z_223 [[1, 1], [0, 1]]) ! 0 ! 1 = Fin 1"
proof -
  have u: "distances ''uu'' Z_223 [[1, 1], [0, 1]] = [[PInf, Fin 2], [Fin 2, PInf]]"
    by code_simp
  have r: "raw_diffs ''uu'' (set_nan_where (\<lambda>m. m \<noteq> 1) Z_223 [[1, 1], [0, 1]]) ! 0 ! 1 = Fin 1"
    by code_simp
  show ?thesis
    using distances_uu_is_ii_transposed [of Z_223 "[[1, 1], [0, 1]]"] u r by simp
qed

lemma upt_2: "[0..<2] = [0, 1]" by (simp add: upt_rec)
lemma upt_3: "[0..<3] = [0, 1, 2]" by (simp add: upt_rec)

lemma nanmean_fin2: "nanmean [Fin x, Fin y] = Fin ((x + y) / 2)"
  by (simp add: nanmean_def replace_nan_def fsum_def)

lemma nanmean_fin3: "nanmean [Fin x, Fin y, Fin z] = Fin ((x + y + z) / 3)"
  by (simp add: nanmean_def replace_nan_def fsum_def)

lemma sq_diff_fin3:
  "sq_diff [Fin x0, Fin x1, Fin x2] [Fin y0, Fin y1, Fin y2] =
     [Fin ((x0 - y0)\<^sup>2), Fin ((x1 - y1)\<^sup>2), Fin ((x2 - y2)\<^sup>2)]"
  by (simp add: sq_diff_def fsub_def power2_eq_square)

lemma raw_diffs_223:
  "raw_diffs ''ii''
     \<lparr>shape_N = 2, shape_T = 2, shape_n = 3,
      cells = [[[Fin a0, Fin a1, Fin a2], [Fin b0, Fin b1, Fin b2]],
               [[Fin c0, Fin c1, Fin c2], [Fin d0, Fin d1, Fin d2]]]\<rparr> =
   [[Fin 0,
     Fin ((((a0 - b0)\<^sup>2 + (a1 - b1)\<^sup>2 + (a2 - b2)\<^sup>2) / 3 +
           ((c0 - d0)\<^sup>2 + (c1 - d1)\<^sup>2 + (c2 - d2)\<^sup>2) / 3) / 2)],
    [Fin ((((b0 - a0)\<^sup>2 + (b1 - a1)\<^sup>2 + (b2 - a2)\<^sup>2) / 3 +
           ((d0 - c0)\<^sup>2 + (d1 - c1)\<^sup>2 + (d2 - c2)\<^sup>2) / 3) / 2),
     Fin 0]]"
  by (simp add: raw_diffs_def swapaxes_def pairwise_sq_diff_def Let_def upt_2
      sq_diff_fin3 nanmean_fin3 nanmean_fin2)

text \<open>
  Claim C4 and the code: for every tensor of shape \<open>(2, 2, 3, 1)\<close> with finite entries,
  all observed, mode \<^verbatim>\<open>"ii"\<close> returns infinite diagonal entries and an off-diagonal
  entry that is twice the mean over the 2 rows of the mean squared difference over the
  3 samples.  The pairwise averages fill the whole matrix, so \<^verbatim>\<open>diffs + diffs.T\<close> adds
  each of them to itself.
\<close>

theorem distances_223_doubled:
  "distances ''ii''
     \<lparr>shape_N = 2, shape_T = 2, shape_n = 3,
      cells = [[[Fin a0, Fin a1, Fin a2], [Fin b0, Fin b1, Fin b2]],
               [[Fin c0, Fin c1, Fin c2], [Fin d0, Fin d1, Fin d2]]]\<rparr>
     [[1, 1], [1, 1]] =
   [[PInf, Fin (2 * ((((a0 - b0)\<^sup>2 + (a1 - b1)\<^sup>2 + (a2 - b2)\<^sup>2) / 3 +
                      ((c0 - d0)\<^sup>2 + (c1 - d1)\<^sup>2 + (c2 - d2)\<^sup>2) / 3) / 2))],
    [Fin (2 * ((((a0 - b0)\<^sup>2 + (a1 - b1)\<^sup>2 + (a2 - b2)\<^sup>2) / 3 +
                      ((c0 - d0)\<^sup>2 + (c1 - d1)\<^sup>2 + (c2 - d2)\<^sup>2) / 3) / 2)), PInf]]"
proof -
  define m where "m = (((a0 - b0)\<^sup>2 + (a1 - b1)\<^sup>2 + (a2 - b2)\<^sup>2) / 3 +
                      ((c0 - d0)\<^sup>2 + (c1 - d1)\<^sup>2 + (c2 - d2)\<^sup>2) / 3) / 2"
  have m0: "0 \<le> m" by (simp add: m_def)
  have m': "(((b0 - a0)\<^sup>2 + (b1 - a1)\<^sup>2 + (b2 - a2)\<^sup>2) / 3 +
           ((d0 - c0)\<^sup>2 + (d1 - c1)\<^sup>2 + (d2 - c2)\<^sup>2) / 3) / 2 = m"
    by (simp add: m_def power2_commute)
  have Z_cp: "set_nan_where (\<lambda>m. m \<noteq> 1)
     \<lparr>shape_N = 2, shape_T = 2, shape_n = 3,
      cells = [[[Fin a0, Fin a1, Fin a2], [Fin b0, Fin b1, Fin b2]],
               [[Fin c0, Fin c1, Fin c2], [Fin d0, Fin d1, Fin d2]]]\<rparr> [[1, 1], [1, 1]] =
     \<lparr>shape_N = 2, shape_T = 2, shape_n = 3,
      cells = [[[Fin a0, Fin a1, Fin a2], [Fin b0, Fin b1, Fin b2]],
               [[Fin c0, Fin c1, Fin c2], [Fin d0, Fin d1, Fin d2]]]\<rparr>"
    by (simp add: set_nan_where_def upt_2)
  have raw: "raw_diffs ''ii''
     \<lparr>shape_N = 2, shape_T = 2, shape_n = 3,
      cells = [[[Fin a0, Fin a1, Fin a2], [Fin b0, Fin b1, Fin b2]],
               [[Fin c0, Fin c1, Fin c2], [Fin d0, Fin d1, Fin d2]]]\<rparr> =
     [[Fin 0, Fin m], [Fin m, Fin 0]]"
    unfolding raw_diffs_223 m' by (simp add: m_def)
  have "distances ''ii''
     \<lparr>shape_N = 2, shape_T = 2, shape_n = 3,
      cells = [[[Fin a0, Fin a1, Fin a2], [Fin b0, Fin b1, Fin b2]],
               [[Fin c0, Fin c1, Fin c2], [Fin d0, Fin d1, Fin d2]]]\<rparr>
     [[1, 1], [1, 1]] = [[PInf, Fin (2 * m)], [Fin (2 * m), PInf]]"
    unfolding distances_def Let_def Z_cp raw
    using m0 by (simp add: add_transpose_def fill_diagonal_def upt_2)
  then show ?thesis by (simp only: m_def)
qed

theorem distances_223_doubled_witness:
  "distances ''ii'' Z_223 [[1, 1], [1, 1]] = [[PInf, Fin 9], [Fin 9, PInf]] \<and>
   ((((0 - 1)\<^sup>2 + (0 - 2)\<^sup>2 + (0 - 2)\<^sup>2) / 3 +
     ((0 - 0)\<^sup>2 + (0 - 3)\<^sup>2 + (0 - 3)\<^sup>2) / 3) / 2 = (9 / 2 :: real)) \<and>
   avg_wasserstein2_dist [[Fin 0, Fin 0, Fin 0], [Fin 0, Fin 0, Fin 0]]
       [[Fin 1, Fin 2, Fin 2], [Fin 0, Fin 3, Fin 3]] = Fin (9 / 2)"
proof -
  have a: "avg_wasserstein2_dist [[Fin 0, Fin 0, Fin 0], [Fin 0, Fin 0, Fin 0]]
       [[Fin 1, Fin 2, Fin 2], [Fin 0, Fin 3, Fin 3]] = Fin (9 / 2)"
    by (simp add: avg_wasserstein2_dist_def sq_diff_fin3 nanmean_fin3 nanmean_fin2)
  show ?thesis
    using distances_223_doubled [of 0 0 0 1 2 2 0 0 0 0 3 3] a
    by (simp add: Z_223_def)
qed

section \<open>Properties of the estimator\<close>

lemma norm_index_less: "norm_index len i = Some k \<Longrightarrow> k < len"
  by (auto simp: norm_index_def split: if_splits)

lemma norm_index_nat [simp]: "k < len \<Longrightarrow> norm_index len (int k) = Some k"
  by (simp add: norm_index_def)

lemma length_neighborhoods [simp]: "length (neighborhoods dists eta) = length dists"
  by (simp add: neighborhoods_def)

lemma neighborhoods_nth:
  "a < length dists \<Longrightarrow> neighborhoods dists eta ! a = map (\<lambda>d. fle d eta) (dists ! a)"
  by (simp add: neighborhoods_def)

lemma fle_flt_trans: "fle d eta1 \<Longrightarrow> flt eta1 eta2 \<Longrightarrow> fle d eta2"
  by (cases d; cases eta1; cases eta2) simp_all

lemma fle_PInf: "fle d PInf = (d \<noteq> NaN)"
  by (cases d) simp_all

lemma length_filter_mono:
  "(\<And>x. x \<in> set xs \<Longrightarrow> P x \<Longrightarrow> Q x) \<Longrightarrow> length (filter P xs) \<le> length (filter Q xs)"
  by (induction xs) auto

lemma length_filter_nth_upt:
  "length (filter (\<lambda>t. P (xs ! t)) [0..<length xs]) = length (filter P xs)"
proof -
  have "filter P xs = filter P (map (\<lambda>t. xs ! t) [0..<length xs])"
    by (simp add: map_nth)
  also have "length \<dots> = length (filter (\<lambda>t. P (xs ! t)) [0..<length xs])"
    by (simp add: filter_map comp_def)
  finally show ?thesis by simp
qed

text \<open>The vector of neighbors selected for an index, and the count, in terms of the row.\<close>

lemma estimate_rc_Inr:
  assumes "estimate_rc nn_type Z M nbhs i j = Inr (est, c, l)"
  shows "\<exists>t_nn neighbors.
     (if nn_type = ''ii'' then bool_row nbhs j else bool_row nbhs i) = Inr t_nn \<and>
     (if nn_type = ''ii'' then gather_row Z i t_nn else gather_col Z t_nn j) = Inr neighbors \<and>
     c = (if 0 < length neighbors * shape_n Z then length neighbors else 0)"
  using assms by (auto simp: estimate_rc_def split: sum.splits if_splits)

lemma estimate_rc_intro:
  assumes "(if nn_type = ''ii'' then bool_row nbhs j else bool_row nbhs i) = Inr t_nn"
    and "(if nn_type = ''ii'' then gather_row Z i t_nn else gather_col Z t_nn j) = Inr neighbors"
  shows "\<exists>est l. estimate_rc nn_type Z M nbhs i j =
     Inr (est, (if 0 < length neighbors * shape_n Z then length neighbors else 0), l)"
proof -
  have "\<exists>m. (if nn_type = ''ii'' then mask_row (shape_N Z) (shape_T Z) M i
            else mask_col (shape_N Z) (shape_T Z) M j) = Inr m"
    using assms(2)
    by (auto simp: mask_row_def mask_col_def gather_row_def gather_col_def split: option.splits if_splits)
  then show ?thesis
    using assms by (auto simp: estimate_rc_def)
qed

lemma bool_row_mono:
  assumes "bool_row (neighborhoods dists eta1) k = Inr t1" and "flt eta1 eta2"
  shows "\<exists>t2. bool_row (neighborhoods dists eta2) k = Inr t2 \<and> length t2 = length t1 \<and>
           (\<forall>t < length t1. t1 ! t \<longrightarrow> t2 ! t)"
  using assms
  by (auto simp: bool_row_def neighborhoods_nth norm_index_less fle_flt_trans split: option.splits)

lemma gather_row_mono:
  assumes "gather_row Z i t1 = Inr nb1" and "length t2 = length t1"
    and "\<forall>t < length t1. t1 ! t \<longrightarrow> t2 ! t"
  shows "\<exists>nb2. gather_row Z i t2 = Inr nb2 \<and> length nb1 \<le> length nb2"
  using assms
  by (auto simp: gather_row_def split: option.splits if_splits intro!: length_filter_mono)

lemma gather_col_mono:
  assumes "gather_col Z t1 j = Inr nb1" and "length t2 = length t1"
    and "\<forall>t < length t1. t1 ! t \<longrightarrow> t2 ! t"
  shows "\<exists>nb2. gather_col Z t2 j = Inr nb2 \<and> length nb1 \<le> length nb2"
  using assms
  by (auto simp: gather_col_def split: option.splits if_splits intro!: length_filter_mono)

lemma estimate_loop_Cons:
  "estimate_loop nn_type Z M nbhs ((i, j) # inds) st =
     (case estimate_rc nn_type Z M nbhs i j of Inl e \<Rightarrow> Inl e | Inr r \<Rightarrow> Inl TypeError)"
  by (cases st) (simp split: sum.splits prod.splits)

lemma estimate_Cons:
  "estimate nn_type Z M eta ((i, j) # inds) dists ret_nn =
     (case estimate_rc nn_type Z M (neighborhoods dists eta) i j of
        Inl e \<Rightarrow> Inl e | Inr r \<Rightarrow> Inl TypeError)"
  by (simp add: estimate_def Let_def estimate_loop_Cons split: sum.splits)

lemma bool_row_ok:
  "norm_index (length dists) k = Some k' \<Longrightarrow>
   bool_row (neighborhoods dists eta) k = Inr (map (\<lambda>d. fle d eta) (dists ! k'))"
  by (simp add: bool_row_def neighborhoods_nth norm_index_less)

lemma estimate_rc_ok:
  assumes i: "norm_index (shape_N Z) i = Some i'" and j: "norm_index (shape_T Z) j = Some j'"
    and d: "dists_shape_ok nn_type Z dists"
  shows "\<exists>r. estimate_rc nn_type Z M (neighborhoods dists eta) i j = Inr r"
proof (cases "nn_type = ''ii''")
  case True
  have len: "length dists = shape_T Z" and row: "length (dists ! j') = shape_T Z"
    using d norm_index_less [OF j] by (auto simp: dists_shape_ok_def neighbor_axis_len_def True list_all_length)
  show ?thesis
    using i j by (simp add: estimate_rc_def True bool_row_ok len row mask_row_def gather_row_def)
next
  case False
  have len: "length dists = shape_N Z" and row: "length (dists ! i') = shape_N Z"
    using d norm_index_less [OF i] by (auto simp: dists_shape_ok_def neighbor_axis_len_def False list_all_length)
  show ?thesis
    using i j by (simp add: estimate_rc_def False bool_row_ok len row mask_col_def gather_col_def)
qed

lemma bool_row_nat:
  "k < length dists \<Longrightarrow>
   bool_row (neighborhoods dists eta) (int k) = Inr (map (\<lambda>d. fle d eta) (dists ! k))"
  by (simp add: bool_row_def neighborhoods_nth)

lemma count_true_upt:
  "length (filter (\<lambda>t. map P xs ! t) [0..<length xs]) = length (filter P xs)"
proof -
  have "filter (\<lambda>t. map P xs ! t) [0..<length xs] = filter (\<lambda>t. P (xs ! t)) [0..<length xs]"
    by (rule filter_cong) auto
  then show ?thesis by (simp add: length_filter_nth_upt)
qed

text \<open>With no index requested the call returns its untouched accumulators.\<close>

lemma estimate_no_index_returns:
  "estimate nn_type Z M eta [] dists ret_nn =
     Inr (if ret_nn
          then EstsNN (replicate (shape_N Z) (PList (replicate (shape_T Z) PNone)))
                 (full (shape_N Z) (shape_T Z) NaN)
                 (replicate (shape_N Z) (PList (replicate (shape_T Z) PNone)))
          else Ests (replicate (shape_N Z) (PList (replicate (shape_T Z) PNone))))"
  by (simp add: estimate_def Let_def)

text \<open>The estimate and the count computed for an index do not depend on the mask.\<close>

lemma estimate_rc_ignores_mask:
  assumes "estimate_rc nn_type Z M nbhs i j = Inr (est, c, l)"
  shows "\<exists>l'. estimate_rc nn_type Z M' nbhs i j = Inr (est, c, l')"
  using assms
  by (auto simp: estimate_rc_def mask_row_def mask_col_def
      split: sum.splits if_splits option.splits)

text \<open>An index with no distance entry within the threshold gets the sentinel and the count zero.\<close>

lemma estimate_rc_empty_gather:
  assumes i: "i < shape_N Z" and j: "j < shape_T Z"
    and d: "dists_shape_ok nn_type Z dists"
    and e: "\<forall>d \<in> set (dists ! target nn_type i j). \<not> fle d eta"
  shows "estimate_rc nn_type Z M (neighborhoods dists eta) (int i) (int j) =
           Inr (replicate (shape_n Z) NInf, 0, None)"
proof (cases "nn_type = ''ii''")
  case True
  have len: "length dists = shape_T Z" and row: "length (dists ! j) = shape_T Z"
    using d j by (auto simp: dists_shape_ok_def neighbor_axis_len_def True list_all_length)
  have none: "filter (\<lambda>t. map (\<lambda>d. fle d eta) (dists ! j) ! t) [0..<shape_T Z] = []"
    using e by (auto simp: filter_empty_conv target_def True row)
  show ?thesis
    using i j by (simp add: estimate_rc_def True bool_row_nat len row mask_row_def gather_row_def none)
next
  case False
  have len: "length dists = shape_N Z" and row: "length (dists ! i) = shape_N Z"
    using d i by (auto simp: dists_shape_ok_def neighbor_axis_len_def False list_all_length)
  have none: "filter (\<lambda>t. map (\<lambda>d. fle d eta) (dists ! i) ! t) [0..<shape_N Z] = []"
    using e by (auto simp: filter_empty_conv target_def False row)
  show ?thesis
    using i j by (simp add: estimate_rc_def False bool_row_nat len row mask_col_def gather_col_def none)
qed

text \<open>
  Claim C3: a call of \<^verbatim>\<open>estimate\<close> with a non-empty index list never returns.  The
  first iteration ends in an exception: the \<^verbatim>\<open>TypeError\<close> of \<^verbatim>\<open>ests[i, j] = est\<close>
  whenever the first requested pair is an index into \<open>Z\<close> and \<^verbatim>\<open>dists\<close> has the shape
  of the neighbor axis (an \<^verbatim>\<open>IndexError\<close> of the array lookups before it otherwise).
\<close>

theorem estimate_nonempty_raises:
  assumes "inds \<noteq> []"
  shows "(\<exists>e. estimate nn_type Z M eta inds dists ret_nn = Inl e) \<and>
         (index_in_range Z (hd inds) \<and> dists_shape_ok nn_type Z dists \<longrightarrow>
            estimate nn_type Z M eta inds dists ret_nn = Inl TypeError)"
proof -
  obtain i j rest where inds: "inds = (i, j) # rest"
    using assms by (cases inds) auto
  have 1: "\<exists>e. estimate nn_type Z M eta inds dists ret_nn = Inl e"
    unfolding inds estimate_Cons by (simp split: sum.splits)
  have 2: "estimate nn_type Z M eta inds dists ret_nn = Inl TypeError"
    if "index_in_range Z (hd inds)" "dists_shape_ok nn_type Z dists"
  proof -
    from that(1) obtain i' j' where
      "norm_index (shape_N Z) i = Some i'" "norm_index (shape_T Z) j = Some j'"
      by (auto simp: index_in_range_def inds)
    from estimate_rc_ok [OF this that(2)] obtain r where
      "estimate_rc nn_type Z M (neighborhoods dists eta) i j = Inr r" by blast
    then show ?thesis unfolding inds estimate_Cons by simp
  qed
  from 1 2 show ?thesis by blast
qed

theorem estimate_nonempty_raises_witness:
  "[(0, 1), (0, 0)] \<noteq> ([] :: (int \<times> int) list) \<and>
   index_in_range Z_121 (hd [(0, 1), (0, 0)]) \<and>
   dists_shape_ok ''ii'' Z_121 (distances ''ii'' Z_121 [[1, 1]]) \<and>
   estimate ''ii'' Z_121 [[1, 1]] (Fin 10) [(0, 1), (0, 0)] (distances ''ii'' Z_121 [[1, 1]]) False
     = Inl TypeError"
proof -
  have a: "[(0, 1), (0, 0)] \<noteq> ([] :: (int \<times> int) list)" by simp
  have b: "index_in_range Z_121 (hd [(0, 1), (0, 0)])"
    by (simp add: index_in_range_def Z_121_def norm_index_def)
  have c: "dists_shape_ok ''ii'' Z_121 (distances ''ii'' Z_121 [[1, 1]])"
    by code_simp
  show ?thesis
    using estimate_nonempty_raises [OF a, of "''ii''" Z_121 "[[1, 1]]" "Fin 10"
        "distances ''ii'' Z_121 [[1, 1]]" False] a b c
    by blast
qed

text \<open>
  Claim C1 and the code: for a requested index into \<open>Z\<close> with no distance entry within
  the threshold, the loop body computes the sentinel vector of \<open>n\<close> negative infinities
  and the count zero, and the call then raises at \<^verbatim>\<open>ests[i, j] = est\<close>; no call that
  requests such an index returns.
\<close>

theorem estimate_empty_neighborhood_raises:
  assumes "i < shape_N Z" and "j < shape_T Z" and "dists_shape_ok nn_type Z dists"
    and "\<forall>d \<in> set (dists ! target nn_type i j). \<not> fle d eta"
  shows "estimate_rc nn_type Z M (neighborhoods dists eta) (int i) (int j) =
           Inr (replicate (shape_n Z) NInf, 0, None) \<and>
         estimate nn_type Z M eta ((int i, int j) # inds) dists ret_nn = Inl TypeError \<and>
         ((int i, int j) \<in> set inds' \<longrightarrow>
            (\<exists>e. estimate nn_type Z M eta inds' dists ret_nn = Inl e))"
proof -
  have r: "estimate_rc nn_type Z M (neighborhoods dists eta) (int i) (int j) =
           Inr (replicate (shape_n Z) NInf, 0, None)"
    using assms by (rule estimate_rc_empty_gather)
  then have "estimate nn_type Z M eta ((int i, int j) # inds) dists ret_nn = Inl TypeError"
    by (simp add: estimate_Cons)
  moreover have "\<exists>e. estimate nn_type Z M eta inds' dists ret_nn = Inl e"
    if "(int i, int j) \<in> set inds'"
  proof -
    from that obtain p rest where "inds' = p # rest" by (cases inds') auto
    then show ?thesis
      by (cases p) (simp add: estimate_Cons split: sum.splits)
  qed
  ultimately show ?thesis using r by blast
qed

theorem estimate_empty_neighborhood_raises_witness:
  "distances ''ii'' Z_121 [[1, 1]] = [[PInf, Fin 8], [Fin 8, PInf]] \<and>
   \<not> fle PInf (Fin 0) \<and> \<not> fle (Fin 8) (Fin 0) \<and>
   estimate_rc ''ii'' Z_121 [[1, 1]] (neighborhoods [[PInf, Fin 8], [Fin 8, PInf]] (Fin 0)) 0 0
     = Inr ([NInf], 0, None) \<and>
   estimate ''ii'' Z_121 [[1, 1]] (Fin 0) [(0, 0)] [[PInf, Fin 8], [Fin 8, PInf]] True
     = Inl TypeError \<and>
   (0, 0) \<in> set [(0, 1), (0, 0 :: int)] \<and>
   (\<exists>e. estimate ''ii'' Z_121 [[1, 1]] (Fin 0) [(0, 1), (0, 0)] [[PInf, Fin 8], [Fin 8, PInf]] True
     = Inl e)"
proof -
  have d: "distances ''ii'' Z_121 [[1, 1]] = [[PInf, Fin 8], [Fin 8, PInf]]"
    by code_simp
  have i: "0 < shape_N Z_121" and j: "0 < shape_T Z_121"
    by (simp_all add: Z_121_def)
  have k: "dists_shape_ok ''ii'' Z_121 [[PInf, Fin 8], [Fin 8, PInf]]"
    by (simp add: dists_shape_ok_def neighbor_axis_len_def Z_121_def)
  have e: "\<forall>d \<in> set ([[PInf, Fin 8], [Fin 8, PInf]] ! target ''ii'' 0 0). \<not> fle d (Fin 0)"
    by (simp add: target_def)
  have s: "replicate (shape_n Z_121) NInf = [NInf]"
    by (simp add: Z_121_def)
  have m: "(0, 0) \<in> set [(0, 1), (0, 0 :: int)]"
    by simp
  show ?thesis
    using estimate_empty_neighborhood_raises [OF i j k e, of "[[1, 1]]" "[]" True "[(0, 1), (0, 0)]"]
      d s m
    by simp
qed

text \<open>
  Claim C2 and the code: the cells are gathered from \<open>Z\<close>, not from the masked copy.
  With cell \<open>(0, 1)\<close> masked (\<open>M = 0\<close>) and column 1 within the threshold of column 0,
  the estimate computed for index \<open>(0, 0)\<close> is the content of the masked cell, and it
  changes when only that cell changes.
\<close>

theorem estimate_averages_masked_cell:
  "M_221 ! 0 ! 1 = 0 \<and>
   distances ''ii'' (Z_221 3) M_221 = [[PInf, Fin 0], [Fin 0, PInf]] \<and>
   distances ''ii'' (Z_221 7) M_221 = [[PInf, Fin 0], [Fin 0, PInf]] \<and>
   estimate_rc ''ii'' (Z_221 3) M_221
       (neighborhoods (distances ''ii'' (Z_221 3) M_221) (Fin 0)) 0 0
     = Inr ([Fin 3], 1, Some []) \<and>
   estimate_rc ''ii'' (Z_221 7) M_221
       (neighborhoods (distances ''ii'' (Z_221 7) M_221) (Fin 0)) 0 0
     = Inr ([Fin 7], 1, Some [])"
  by code_simp

text \<open>The loop body: a larger threshold selects more neighbors and computes a larger count.\<close>

lemma estimate_rc_count_monotone:
  assumes lt: "flt eta1 eta2"
  shows "(\<forall>a < length dists. \<forall>b < length (dists ! a).
            neighborhoods dists eta1 ! a ! b \<longrightarrow> neighborhoods dists eta2 ! a ! b) \<and>
         (\<forall>est1 c1 l1.
            estimate_rc nn_type Z M (neighborhoods dists eta1) i j = Inr (est1, c1, l1) \<longrightarrow>
            (\<exists>est2 c2 l2.
               estimate_rc nn_type Z M (neighborhoods dists eta2) i j = Inr (est2, c2, l2) \<and>
               c1 \<le> c2))"
proof (intro conjI allI impI)
  fix a b
  assume "a < length dists" "b < length (dists ! a)" "neighborhoods dists eta1 ! a ! b"
  then show "neighborhoods dists eta2 ! a ! b"
    using lt by (simp add: neighborhoods_nth fle_flt_trans)
next
  fix est1 c1 l1
  assume r: "estimate_rc nn_type Z M (neighborhoods dists eta1) i j = Inr (est1, c1, l1)"
  let ?k = "if nn_type = ''ii'' then j else i"
  from estimate_rc_Inr [OF r] obtain t1 nb1 where
    t1: "bool_row (neighborhoods dists eta1) ?k = Inr t1" and
    nb1: "(if nn_type = ''ii'' then gather_row Z i t1 else gather_col Z t1 j) = Inr nb1" and
    c1: "c1 = (if 0 < length nb1 * shape_n Z then length nb1 else 0)"
    by (auto split: if_splits)
  from bool_row_mono [OF t1 lt] obtain t2 where
    t2: "bool_row (neighborhoods dists eta2) ?k = Inr t2" and len: "length t2 = length t1" and
    sub: "\<forall>t < length t1. t1 ! t \<longrightarrow> t2 ! t"
    by blast
  have "\<exists>nb2. (if nn_type = ''ii'' then gather_row Z i t2 else gather_col Z t2 j) = Inr nb2 \<and>
          length nb1 \<le> length nb2"
    using nb1 gather_row_mono [OF _ len sub] gather_col_mono [OF _ len sub]
    by (auto split: if_splits)
  then obtain nb2 where
    nb2: "(if nn_type = ''ii'' then gather_row Z i t2 else gather_col Z t2 j) = Inr nb2" and
    le: "length nb1 \<le> length nb2"
    by blast
  have t2': "(if nn_type = ''ii'' then bool_row (neighborhoods dists eta2) j
              else bool_row (neighborhoods dists eta2) i) = Inr t2"
    using t2 by (auto split: if_splits)
  from estimate_rc_intro [OF t2' nb2, of M] obtain est2 l2 where
    "estimate_rc nn_type Z M (neighborhoods dists eta2) i j =
       Inr (est2, (if 0 < length nb2 * shape_n Z then length nb2 else 0), l2)"
    by blast
  moreover have "c1 \<le> (if 0 < length nb2 * shape_n Z then length nb2 else 0)"
    using le c1 by (auto split: if_splits)
  ultimately show "\<exists>est2 c2 l2.
      estimate_rc nn_type Z M (neighborhoods dists eta2) i j = Inr (est2, c2, l2) \<and> c1 \<le> c2"
    by blast
qed

text \<open>
  Claim C7 and the code: for every distance matrix and thresholds \<open>eta1 < eta2\<close>, every
  entry of the \<open>eta1\<close>-neighborhood table that holds also holds in the \<open>eta2\<close> table, and
  the neighbor count that the loop body computes for a requested index at \<open>eta1\<close> is at
  most the count it computes at \<open>eta2\<close>.  The call of \<^verbatim>\<open>estimate\<close> itself returns no
  count at either threshold once an index is requested: it raises.
\<close>

theorem neighbor_count_monotone:
  assumes lt: "flt eta1 eta2"
  shows "(\<forall>a < length dists. \<forall>b < length (dists ! a).
            neighborhoods dists eta1 ! a ! b \<longrightarrow> neighborhoods dists eta2 ! a ! b) \<and>
         (\<forall>est1 c1 l1.
            estimate_rc nn_type Z M (neighborhoods dists eta1) i j = Inr (est1, c1, l1) \<longrightarrow>
            (\<exists>est2 c2 l2.
               estimate_rc nn_type Z M (neighborhoods dists eta2) i j = Inr (est2, c2, l2) \<and>
               c1 \<le> c2)) \<and>
         (inds \<noteq> [] \<longrightarrow>
            (\<exists>e1 e2. estimate nn_type Z M eta1 inds dists ret_nn = Inl e1 \<and>
                     estimate nn_type Z M eta2 inds dists ret_nn = Inl e2)) \<and>
         (\<forall>est1 c1 l1.
            estimate_rc nn_type Z M (neighborhoods dists eta1) i j = Inr (est1, c1, l1) \<longrightarrow>
            estimate nn_type Z M eta1 ((i, j) # rest) dists ret_nn = Inl TypeError \<and>
            estimate nn_type Z M eta2 ((i, j) # rest) dists ret_nn = Inl TypeError)"
proof -
  note body = estimate_rc_count_monotone [OF lt, of dists nn_type Z M i j]
  have raises: "\<exists>e. estimate nn_type Z M eta inds dists ret_nn = Inl e"
    if "inds \<noteq> []" for eta
  proof -
    from that obtain p tl where "inds = p # tl" by (cases inds) auto
    then show ?thesis
      by (cases p) (simp add: estimate_Cons split: sum.splits)
  qed
  have type_error:
    "estimate nn_type Z M eta1 ((i, j) # rest) dists ret_nn = Inl TypeError \<and>
     estimate nn_type Z M eta2 ((i, j) # rest) dists ret_nn = Inl TypeError"
    if r: "estimate_rc nn_type Z M (neighborhoods dists eta1) i j = Inr (est1, c1, l1)"
    for est1 c1 l1
  proof -
    from body r obtain est2 c2 l2 where
      "estimate_rc nn_type Z M (neighborhoods dists eta2) i j = Inr (est2, c2, l2)"
      by blast
    with r show ?thesis by (simp add: estimate_Cons)
  qed
  have both: "\<exists>e1 e2. estimate nn_type Z M eta1 inds dists ret_nn = Inl e1 \<and>
                     estimate nn_type Z M eta2 inds dists ret_nn = Inl e2"
    if "inds \<noteq> []"
    using raises [OF that, of eta1] raises [OF that, of eta2] by blast
  show ?thesis
    by (intro conjI allI impI)
       (use body in blast, use body in blast, erule both, (drule type_error, simp)+)
qed

theorem neighbor_count_monotone_witness:
  "flt (Fin 8) PInf \<and>
   neighborhoods (distances ''ii'' Z_121 [[1, 1]]) (Fin 8) ! 1 = [True, False] \<and>
   neighborhoods (distances ''ii'' Z_121 [[1, 1]]) PInf ! 1 = [True, True] \<and>
   estimate_rc ''ii'' Z_121 [[1, 1]] (neighborhoods (distances ''ii'' Z_121 [[1, 1]]) (Fin 8)) 0 1
     = Inr ([Fin 1], 1, Some [0]) \<and>
   estimate_rc ''ii'' Z_121 [[1, 1]] (neighborhoods (distances ''ii'' Z_121 [[1, 1]]) PInf) 0 1
     = Inr ([Fin 2], 2, Some [0, 1]) \<and>
   (1::nat) \<le> 2 \<and>
   [(0, 1)] \<noteq> ([] :: (int \<times> int) list) \<and>
   estimate ''ii'' Z_121 [[1, 1]] (Fin 8) [(0, 1)] (distances ''ii'' Z_121 [[1, 1]]) True
     = Inl TypeError \<and>
   estimate ''ii'' Z_121 [[1, 1]] PInf [(0, 1)] (distances ''ii'' Z_121 [[1, 1]]) True
     = Inl TypeError"
proof -
  have lt: "flt (Fin 8) PInf" by simp
  have n1: "neighborhoods (distances ''ii'' Z_121 [[1, 1]]) (Fin 8) ! 1 = [True, False]"
    by code_simp
  have n2: "neighborhoods (distances ''ii'' Z_121 [[1, 1]]) PInf ! 1 = [True, True]"
    by code_simp
  have e1: "estimate_rc ''ii'' Z_121 [[1, 1]]
      (neighborhoods (distances ''ii'' Z_121 [[1, 1]]) (Fin 8)) 0 1 = Inr ([Fin 1], 1, Some [0])"
    by code_simp
  have e2: "estimate_rc ''ii'' Z_121 [[1, 1]]
      (neighborhoods (distances ''ii'' Z_121 [[1, 1]]) PInf) 0 1 = Inr ([Fin 2], 2, Some [0, 1])"
    by code_simp
  have ne: "[(0, 1)] \<noteq> ([] :: (int \<times> int) list)" by simp
  show ?thesis
    using neighbor_count_monotone [OF lt, of "distances ''ii'' Z_121 [[1, 1]]" "''ii''" Z_121
        "[[1, 1]]" 0 1 "[(0, 1)]" True "[]"] lt n1 n2 e1 e2 ne
    by simp
qed

text \<open>
  Claim C6, as the code has it: when \<open>eta\<close> is positive infinity and the cells along the
  orthogonal axis are all observed, the neighbor count computed for a requested index
  is the number of indices of the neighbor axis whose distance to it is not \<^verbatim>\<open>nan\<close>;
  the index itself is one of them, since its infinite diagonal entry passes
  \<^verbatim>\<open>inf <= inf\<close>.
\<close>

theorem neighbor_count_eta_inf:
  assumes i: "i < shape_N Z" and j: "j < shape_T Z" and n: "0 < shape_n Z"
    and d: "dists_shape_ok nn_type Z dists"
    and m: "all_observed nn_type Z M i j"
  shows "(\<exists>est l. estimate_rc nn_type Z M (neighborhoods dists PInf) (int i) (int j) =
            Inr (est, length (filter (\<lambda>d. d \<noteq> NaN) (dists ! target nn_type i j)), l)) \<and>
         (dists ! target nn_type i j ! target nn_type i j = PInf \<longrightarrow>
            neighborhoods dists PInf ! target nn_type i j ! target nn_type i j)"
proof (cases "nn_type = ''ii''")
  case True
  have len: "length dists = shape_T Z" and row: "length (dists ! j) = shape_T Z"
    using d j by (auto simp: dists_shape_ok_def neighbor_axis_len_def True list_all_length)
  have t: "bool_row (neighborhoods dists PInf) (int j) = Inr (map (\<lambda>d. d \<noteq> NaN) (dists ! j))"
    using j by (simp add: bool_row_nat len fle_PInf)
  have g: "gather_row Z (int i) (map (\<lambda>d. d \<noteq> NaN) (dists ! j)) =
      Inr (map (\<lambda>t. cells Z ! i ! t) (filter (\<lambda>t. map (\<lambda>d. d \<noteq> NaN) (dists ! j) ! t) [0..<length (dists ! j)]))"
    using i by (simp add: gather_row_def row)
  have 1: "\<exists>est l. estimate_rc nn_type Z M (neighborhoods dists PInf) (int i) (int j) =
            Inr (est, length (filter (\<lambda>d. d \<noteq> NaN) (dists ! j)), l)"
    using n i by (auto simp: estimate_rc_def True t g mask_row_def count_true_upt)
  have 2: "neighborhoods dists PInf ! j ! j" if "dists ! j ! j = PInf"
    using j that by (simp add: neighborhoods_nth len row)
  from 1 2 show ?thesis by (simp add: target_def True)
next
  case False
  have len: "length dists = shape_N Z" and row: "length (dists ! i) = shape_N Z"
    using d i by (auto simp: dists_shape_ok_def neighbor_axis_len_def False list_all_length)
  have t: "bool_row (neighborhoods dists PInf) (int i) = Inr (map (\<lambda>d. d \<noteq> NaN) (dists ! i))"
    using i by (simp add: bool_row_nat len fle_PInf)
  have g: "gather_col Z (map (\<lambda>d. d \<noteq> NaN) (dists ! i)) (int j) =
      Inr (map (\<lambda>s. cells Z ! s ! j) (filter (\<lambda>t. map (\<lambda>d. d \<noteq> NaN) (dists ! i) ! t) [0..<length (dists ! i)]))"
    using j by (simp add: gather_col_def row)
  have 1: "\<exists>est l. estimate_rc nn_type Z M (neighborhoods dists PInf) (int i) (int j) =
            Inr (est, length (filter (\<lambda>d. d \<noteq> NaN) (dists ! i)), l)"
    using n j by (auto simp: estimate_rc_def False t g mask_col_def count_true_upt)
  have 2: "neighborhoods dists PInf ! i ! i" if "dists ! i ! i = PInf"
    using i that by (simp add: neighborhoods_nth len row)
  from 1 2 show ?thesis by (simp add: target_def False)
qed

theorem neighbor_count_eta_inf_witness:
  "estimate_rc ''ii'' Z_121 [[1, 1]] (neighborhoods (distances ''ii'' Z_121 [[1, 1]]) PInf)
      (int 0) (int 0) = Inr ([Fin 2], 2, Some [0, 1]) \<and>
   length (filter (\<lambda>d. d \<noteq> NaN) (distances ''ii'' Z_121 [[1, 1]] ! target ''ii'' 0 0)) = 2 \<and>
   distances ''ii'' Z_121 [[1, 1]] ! target ''ii'' 0 0 ! target ''ii'' 0 0 = PInf \<and>
   neighborhoods (distances ''ii'' Z_121 [[1, 1]]) PInf ! target ''ii'' 0 0 ! target ''ii'' 0 0"
proof -
  have i: "0 < shape_N Z_121" and j: "0 < shape_T Z_121" and n: "0 < shape_n Z_121"
    by (simp_all add: Z_121_def)
  have d: "dists_shape_ok ''ii'' Z_121 (distances ''ii'' Z_121 [[1, 1]])"
    by code_simp
  have m: "all_observed ''ii'' Z_121 [[1, 1]] 0 0"
    by code_simp
  have e: "estimate_rc ''ii'' Z_121 [[1, 1]] (neighborhoods (distances ''ii'' Z_121 [[1, 1]]) PInf)
      (int 0) (int 0) = Inr ([Fin 2], 2, Some [0, 1])"
    by code_simp
  have c: "length (filter (\<lambda>d. d \<noteq> NaN) (distances ''ii'' Z_121 [[1, 1]] ! target ''ii'' 0 0)) = 2"
    by code_simp
  have p: "distances ''ii'' Z_121 [[1, 1]] ! target ''ii'' 0 0 ! target ''ii'' 0 0 = PInf"
    by code_simp
  show ?thesis
    using neighbor_count_eta_inf [OF i j n d m] e c p by simp
qed

text \<open>
  Claim C6 as stated fails: with two columns, both observed, and \<open>eta\<close> at infinity the
  count computed for index \<open>(0, 0)\<close> is 2, while there is one other index and no masked
  cell.
\<close>

theorem neighbor_count_eta_inf_counterexample:
  "distances ''ii'' Z_121 [[1, 1]] = [[PInf, Fin 8], [Fin 8, PInf]] \<and>
   estimate_rc ''ii'' Z_121 [[1, 1]] (neighborhoods [[PInf, Fin 8], [Fin 8, PInf]] PInf) 0 0
     = Inr ([Fin 2], 2, Some [0, 1]) \<and>
   length (filter (\<lambda>t. t \<noteq> 0 \<and> [[1, 1 :: int]] ! 0 ! t = 1) [0..<shape_T Z_121]) = 1 \<and>
   estimate ''ii'' Z_121 [[1, 1]] PInf [(0, 0)] [[PInf, Fin 8], [Fin 8, PInf]] True = Inl TypeError"
  by code_simp

end
